theory Spec2Isabelle
  imports Main
begin

section \<open>The path functions of the platform that index.js calls\<close>

text \<open>
  index.js calls \<open>fspath.normalize\<close>, \<open>fspath.join\<close>, \<open>fspath.dirname\<close>,
  \<open>fspath.basename\<close> and \<open>fspath.extname\<close> of the platform's POSIX path module.
  They are written out here on strings (lists of characters), segment by segment:
  empty and \<open>.\<close> segments are dropped, a \<open>..\<close> segment removes the segment before it.
\<close>

fun split_slash :: "string \<Rightarrow> string list" where
  "split_slash [] = [[]]"
| "split_slash (c # cs) =
     (if c = CHR ''/'' then [] # split_slash cs
      else (case split_slash cs of [] \<Rightarrow> [[c]] | x # xs \<Rightarrow> (c # x) # xs))"

fun join_slash :: "string list \<Rightarrow> string" where
  "join_slash [] = []"
| "join_slash [x] = x"
| "join_slash (x # y # zs) = x @ ''/'' @ join_slash (y # zs)"

fun normalizeString :: "bool \<Rightarrow> string list \<Rightarrow> string list \<Rightarrow> string list" where
  "normalizeString allowAboveRoot res [] = res"
| "normalizeString allowAboveRoot res (s # ss) =
     (if s = [] \<or> s = ''.'' then normalizeString allowAboveRoot res ss
      else if s = ''..'' then
        (if res \<noteq> [] \<and> last res \<noteq> ''..'' then normalizeString allowAboveRoot (butlast res) ss
         else if allowAboveRoot then normalizeString allowAboveRoot (res @ [''..'']) ss
         else normalizeString allowAboveRoot res ss)
      else normalizeString allowAboveRoot (res @ [s]) ss)"

definition normalize :: "string \<Rightarrow> string" where
  "normalize p =
     (if p = [] then ''.''
      else
        let isAbsolute = (hd p = CHR ''/'');
            trailingSeparator = (last p = CHR ''/'');
            body = join_slash (normalizeString (\<not> isAbsolute) [] (split_slash p))
        in if body = [] then (if isAbsolute then ''/'' else if trailingSeparator then ''./'' else ''.'')
           else (if isAbsolute then ''/'' else []) @ body @ (if trailingSeparator then ''/'' else []))"

text \<open>\<open>fspath.join\<close> of string arguments: the non-empty ones, joined by a slash, normalized.\<close>

definition path_join :: "string list \<Rightarrow> string" where
  "path_join parts =
     (let joined = join_slash (filter (\<lambda>s. s \<noteq> []) parts)
      in if joined = [] then ''.'' else normalize joined)"

text \<open>
  An argument that is \<open>undefined\<close> (\<open>None\<close>) makes \<open>fspath.join\<close> throw a TypeError;
  the result \<open>None\<close> stands for that throw.
\<close>

definition join_args :: "string option list \<Rightarrow> string option" where
  "join_args args = (if None \<in> set args then None else Some (path_join (map the args)))"

definition basename :: "string \<Rightarrow> string" where
  "basename p = rev (takeWhile (\<lambda>c. c \<noteq> CHR ''/'') (dropWhile (\<lambda>c. c = CHR ''/'') (rev p)))"

definition dirname :: "string \<Rightarrow> string" where
  "dirname p =
     (if p = [] then ''.''
      else
        let hasRoot = (hd p = CHR ''/'');
            r1 = dropWhile (\<lambda>c. c = CHR ''/'') (rev (tl p));
            r2 = dropWhile (\<lambda>c. c \<noteq> CHR ''/'') r1
        in if r2 = [] then (if hasRoot then ''/'' else ''.'')
           else if hasRoot \<and> length r2 = 1 then ''//''
           else take (length r2) p)"

definition extname :: "string \<Rightarrow> string" where
  "extname p =
     (let b = basename p;
          ext = rev (takeWhile (\<lambda>c. c \<noteq> CHR ''.'') (rev b));
          pre = take (length b - length ext - 1) b
      in if CHR ''.'' \<in> set b \<and> pre \<noteq> [] \<and> b \<noteq> ''..'' then CHR ''.'' # ext
         else [])"

definition toLowerChar :: "char \<Rightarrow> char" where
  "toLowerChar c =
     (let n = (of_char c :: nat) in if 65 \<le> n \<and> n \<le> 90 then char_of (n + 32) else c)"

definition toLowerCase :: "string \<Rightarrow> string" where
  "toLowerCase s = map toLowerChar s"

text \<open>\<open>.replace(/^\./, '')\<close>: one leading dot is removed.\<close>

definition strip_dot :: "string \<Rightarrow> string" where
  "strip_dot s = (case s of [] \<Rightarrow> [] | c # cs \<Rightarrow> if c = CHR ''.'' then cs else s)"

text \<open>
  The spec's notion of a path lying lexically within a root: the root itself, or a path
  below it, that is, one that begins with the root as a directory (the root followed by
  a slash; a root that already ends in a slash, such as \<open>/\<close> or \<open>/data/\<close>, as it
  is). This is the property the spec states, written from its words; the test that
  \<open>emu.get\<close> performs is \<open>has_prefix\<close> below.
\<close>

definition root_dir :: "string \<Rightarrow> string" where
  "root_dir root = (if root \<noteq> [] \<and> last root = CHR ''/'' then root else root @ ''/'')"

definition within_root :: "string \<Rightarrow> string \<Rightarrow> bool" where
  "within_root root p = (p = root \<or> take (length (root_dir root)) p = root_dir root)"

text \<open>\<open>p.substr(0, root.length) != root\<close> is \<open>\<not> has_prefix root p\<close>.\<close>

definition has_prefix :: "string \<Rightarrow> string \<Rightarrow> bool" where
  "has_prefix root p = (take (length root) p = root)"


section \<open>Requests, middleware values and settings\<close>

text \<open>
  \<open>req.param\<close> (without the s) is not the parameter table: it is whatever the framework
  or an earlier handler left under that name. \<open>ParamUndefined\<close> is a request without
  such a field (reading \<open>.path\<close> of it throws); \<open>ParamValue v\<close> is a field whose
  \<open>path\<close> property reads \<open>v\<close>.
\<close>

datatype param_field = ParamUndefined | ParamValue "string option"

record request =
  req_method :: string
  params_path :: "string option"
  param :: param_field
  headers_destination :: "string option"

text \<open>JavaScript truthiness of a value that is a string or \<open>undefined\<close>.\<close>

definition truthy :: "string option \<Rightarrow> bool" where
  "truthy v = (case v of None \<Rightarrow> False | Some s \<Rightarrow> s \<noteq> [])"

text \<open>A template literal writes \<open>undefined\<close> as the text "undefined".\<close>

definition template :: "string option \<Rightarrow> string" where
  "template v = (case v of None \<Rightarrow> ''undefined'' | Some s \<Rightarrow> s)"

text \<open>
  A middleware function \<open>(req, res, next)\<close> is supplied by the caller. The model keeps a
  name for it and what it does with \<open>next\<close>: call it, call it with an error, or not call
  it at all (having answered the request itself).
\<close>

datatype step_result = CallsNext | CallsNextErr string | NoCall

datatype step = Step string "request \<Rightarrow> step_result"

text \<open>The values an operation option (\<open>list\<close>, \<open>get\<close>, \<open>post\<close>, \<open>move\<close>, \<open>delete\<close>,
  \<open>postProcessing\<close>) can hold. \<open>MOther\<close> is any other truthy value.\<close>

datatype middleware =
    MUndefined
  | MNull
  | MBool bool
  | MFunction step
  | MArray "step list"
  | MString string
  | MOther

datatype path_setting = PathStr string | PathFun "request \<Rightarrow> string" | PathOther

datatype handler = DefaultHandler | CustomHandler string

record settings =
  path :: path_setting
  basePath :: string
  limit :: int
  expect :: "int option"
  field :: string
  postPath :: string
  list_mw :: middleware
  get_mw :: middleware
  post_mw :: middleware
  move_mw :: middleware
  delete_mw :: middleware
  postProcessing :: middleware
  errorHandler :: handler

record listing_entry =
  name :: string
  ext :: string
  fsize :: int
  created :: int

datatype multer_handle = Single string | ArrayMax string int | ArrayOf string | AnyField

text \<open>Everything a request does to the response, the filesystem and the caller's
  functions, in the order it happens.\<close>

datatype event =
    ResStatusEnd int
  | ResSendError int string
  | ErrorHandler handler int string
  | ResSendList "listing_entry list"
  | ResSendEmptyObject
  | ResSendFile string
  | ResSendStatus int
  | RunStep string
  | FsStat string
  | FsReaddir string
  | FsAccess string
  | FsUnlink string
  | FsRename string string
  | FsMkdirp string
  | FsWriteFile string "string option"
  | MulterRun multer_handle
  | Thrown string
  | PathNotString


section \<open>The environment: filesystem, body parser, chain library\<close>

datatype stat_result = StatENOENT | StatError string | StatOk bool int int

datatype access_result = AccessOk | AccessENOENT | AccessError string

record upload =
  originalname :: string
  buffer :: string

text \<open>A value the upload loop visits: a file object, or a value without
  \<open>originalname\<close> and \<open>buffer\<close>.\<close>

datatype item = FileItem upload | PlainItem

datatype multer_outcome =
    MulterError string
  | MulterNone
  | MulterFile upload
  | MulterFiles "upload list"

text \<open>
  What the chain library does when \<open>forEach\<close> is handed \<open>undefined\<close> instead of a
  collection is decided by that library, which index.js only requires: it either has
  nothing to run and goes on to \<open>end\<close>, or refuses the call with an exception.
\<close>

datatype undefined_collection = SkipsToEnd | RefusesCall

record env =
  stat :: "string \<Rightarrow> stat_result"
  readdir :: "string \<Rightarrow> string + string list"
  access :: "string \<Rightarrow> access_result"
  unlink :: "string \<Rightarrow> string option"
  rename :: "string \<Rightarrow> string \<Rightarrow> string option"
  mkdirp :: "string \<Rightarrow> string option"
  writeFile :: "string \<Rightarrow> string option \<Rightarrow> string option"
  multer :: "multer_handle \<Rightarrow> multer_outcome"
  object_values :: "upload \<Rightarrow> item list"
  forEach_undefined :: undefined_collection


section \<open>runMiddleware\<close>

text \<open>The outcome of running a chain: the events so far, and whether the callback is
  invoked after them.\<close>

datatype chain_result = Proceeds "event list" | Stopped "event list"

fun prepend :: "event list \<Rightarrow> chain_result \<Rightarrow> chain_result" where
  "prepend es (Proceeds fs) = Proceeds (es @ fs)"
| "prepend es (Stopped fs) = Stopped (es @ fs)"

text \<open>\<open>async().limit(1).forEach(runnable, ...)\<close>: one function at a time, each must call
  \<open>next\<close> for the following one to start; an error goes to \<open>res.sendError(403, err)\<close>.\<close>

fun run_steps :: "request \<Rightarrow> step list \<Rightarrow> chain_result" where
  "run_steps req [] = Proceeds []"
| "run_steps req (Step n f # ss) =
     (case f req of
        CallsNext \<Rightarrow> prepend [RunStep n] (run_steps req ss)
      | CallsNextErr e \<Rightarrow> Stopped [RunStep n, ResSendError 403 e]
      | NoCall \<Rightarrow> Stopped [RunStep n])"

definition run_chain :: "undefined_collection \<Rightarrow> request \<Rightarrow> step list option \<Rightarrow> chain_result" where
  "run_chain lib req runnable =
     (case runnable of
        None \<Rightarrow> (case lib of
                   SkipsToEnd \<Rightarrow> Proceeds []
                 | RefusesCall \<Rightarrow> Stopped [Thrown ''Error''])
      | Some steps \<Rightarrow> run_steps req steps)"

definition isBoolean :: "middleware \<Rightarrow> bool" where
  "isBoolean m = (case m of MBool _ \<Rightarrow> True | _ \<Rightarrow> False)"

definition isFalse :: "middleware \<Rightarrow> bool" where
  "isFalse m = (m = MBool False)"

definition isUndefined :: "middleware \<Rightarrow> bool" where
  "isUndefined m = (case m of MUndefined \<Rightarrow> True | _ \<Rightarrow> False)"

definition isNull :: "middleware \<Rightarrow> bool" where
  "isNull m = (case m of MNull \<Rightarrow> True | _ \<Rightarrow> False)"

text \<open>\<open>_.has(obj, key)\<close> and \<open>_.get(obj, key)\<close>; \<open>obj\<close> is \<open>None\<close> when the fifth
  argument is not passed.\<close>

definition has_key :: "(string \<rightharpoonup> middleware) option \<Rightarrow> string \<Rightarrow> bool" where
  "has_key obj k = (case obj of None \<Rightarrow> False | Some m \<Rightarrow> m k \<noteq> None)"

definition get_key :: "(string \<rightharpoonup> middleware) option \<Rightarrow> string \<Rightarrow> middleware" where
  "get_key obj k = (case obj of None \<Rightarrow> MUndefined
                    | Some m \<Rightarrow> (case m k of None \<Rightarrow> MUndefined | Some v \<Rightarrow> v))"

text \<open>The string a \<open>MString\<close> holds (used only under that test).\<close>

fun the_string :: "middleware \<Rightarrow> string" where
  "the_string (MString s) = s"
| "the_string _ = []"

text \<open>
  The body of \<open>runMiddleware\<close> up to the chain: the \<open>if\<close>/\<open>else if\<close> ladder in the
  source's order. Only the undefined/null branch and the string branch return; every
  other branch, the one for \<open>false\<close> included, goes on to the chain with what
  \<open>runnable\<close> holds then. A string pointing at itself never returns: \<open>None\<close>.
\<close>

partial_function (option) runMiddleware ::
  "undefined_collection \<Rightarrow> request \<Rightarrow> middleware \<Rightarrow> (string \<rightharpoonup> middleware) option \<Rightarrow> chain_result option"
where
  "runMiddleware lib req mw obj =
     (if isBoolean mw \<and> isFalse mw then
        Some (prepend [ResStatusEnd 403] (run_chain lib req None))
      else if isUndefined mw \<or> isNull mw then Some (Proceeds [])
      else if (case mw of MFunction _ \<Rightarrow> True | _ \<Rightarrow> False) then
        Some (run_chain lib req (case mw of MFunction f \<Rightarrow> Some [f] | _ \<Rightarrow> None))
      else if (case mw of MArray _ \<Rightarrow> True | _ \<Rightarrow> False) then
        Some (run_chain lib req (case mw of MArray fs \<Rightarrow> Some fs | _ \<Rightarrow> None))
      else if (case mw of MString _ \<Rightarrow> True | _ \<Rightarrow> False) \<and> has_key obj (the_string mw) then
        runMiddleware lib req (get_key obj (the_string mw)) obj
      else Some (run_chain lib req None))"


section \<open>The operations\<close>

text \<open>The storage root a handler works with. The handlers are reached with a string
  there (the dispatcher resolves it first); any other value ends the model's trace.\<close>

definition root_of :: "settings \<Rightarrow> string option" where
  "root_of s = (case path s of PathStr r \<Rightarrow> Some r | _ \<Rightarrow> None)"

subsection \<open>emu.list\<close>

text \<open>The decoration of the listing: each name is stat-ed; the error of that stat is
  not looked at, so a failed one makes \<open>stat.size\<close> throw.\<close>

fun decorate :: "env \<Rightarrow> string \<Rightarrow> string list \<Rightarrow> event list \<times> listing_entry list option" where
  "decorate e root [] = ([], Some [])"
| "decorate e root (n # ns) =
     (let p = path_join [root, n]
      in case stat e p of
           StatOk isDir sz ctime \<Rightarrow>
             (case decorate e root ns of
                (es, r) \<Rightarrow>
                  (FsStat p # es,
                   map_option (\<lambda>xs. \<lparr>name = basename n,
                                      ext = strip_dot (toLowerCase (extname n)),
                                      fsize = sz, created = ctime\<rparr> # xs) r))
         | _ \<Rightarrow> ([FsStat p, Thrown ''TypeError''], None))"

definition emu_list :: "env \<Rightarrow> settings \<Rightarrow> request \<Rightarrow> event list" where
  "emu_list e s req =
     (case root_of s of
        None \<Rightarrow> [PathNotString]
      | Some root \<Rightarrow>
          FsStat root #
          (case stat e root of
             StatENOENT \<Rightarrow> [ResSendList []]
           | StatError msg \<Rightarrow> [ErrorHandler (errorHandler s) 400 (''Directory access error - '' @ msg)]
           | StatOk isDir sz ctime \<Rightarrow>
               if \<not> isDir then [ErrorHandler (errorHandler s) 400 ''Not a directory'']
               else FsReaddir root #
                 (case readdir e root of
                    Inl err \<Rightarrow> [ErrorHandler (errorHandler s) 400 err]
                  | Inr names \<Rightarrow>
                      (case decorate e root names of
                         (es, Some files) \<Rightarrow> es @ [ResSendList files]
                       | (es, None) \<Rightarrow> es))))"

subsection \<open>emu.get\<close>

definition emu_get :: "env \<Rightarrow> settings \<Rightarrow> request \<Rightarrow> event list" where
  "emu_get e s req =
     (case root_of s of
        None \<Rightarrow> [PathNotString]
      | Some root \<Rightarrow>
          (let p = normalize (root @ ''/'' @ template (params_path req))
           in FsAccess p #
              (case access e p of
                 AccessENOENT \<Rightarrow> [ErrorHandler (errorHandler s) 404 ''File not found'']
               | AccessError msg \<Rightarrow> [ErrorHandler (errorHandler s) 400 (''File access error - '' @ msg)]
               | AccessOk \<Rightarrow>
                   if \<not> has_prefix root p
                   then [ErrorHandler (errorHandler s) 400 ''File outside of storage directory!'']
                   else [ResSendFile p])))"

subsection \<open>emu.delete\<close>

definition emu_delete :: "env \<Rightarrow> settings \<Rightarrow> request \<Rightarrow> event list" where
  "emu_delete e s req =
     (case root_of s of
        None \<Rightarrow> [PathNotString]
      | Some root \<Rightarrow>
          (let p = normalize (root @ ''/'' @ template (params_path req))
           in FsUnlink p #
              (case unlink e p of
                 Some err \<Rightarrow> [ErrorHandler (errorHandler s) 400 err]
               | None \<Rightarrow> [ResSendStatus 200])))"

subsection \<open>emu.move\<close>

definition emu_move :: "env \<Rightarrow> settings \<Rightarrow> request \<Rightarrow> event list" where
  "emu_move e s req =
     (case root_of s of
        None \<Rightarrow> [PathNotString]
      | Some root \<Rightarrow>
          (case headers_destination req of
             None \<Rightarrow> [ErrorHandler (errorHandler s) 400 ''Destination header not specified'']
           | Some dest \<Rightarrow>
               if dest = [] then [ErrorHandler (errorHandler s) 400 ''Destination header not specified'']
               else
                 (let p = normalize (root @ ''/'' @ template (params_path req));
                      q = path_join [dirname p, basename dest]
                  in FsRename p q #
                     (case rename e p q of
                        Some err \<Rightarrow> [ErrorHandler (errorHandler s) 400 err]
                      | None \<Rightarrow> [ResSendStatus 200]))))"

subsection \<open>emu.post\<close>

datatype guard = GuardOk | GuardError string | GuardThrown string

text \<open>The first step of \<open>emu.post\<close> ("sanity checks"). Under \<open>'param'\<close> it assigns
  \<open>settings.limit = 1\<close> on the settings object it was given, then reads
  \<open>req.param.path\<close>.\<close>

definition sanity_checks :: "settings \<Rightarrow> request \<Rightarrow> settings \<times> guard" where
  "sanity_checks s req =
     (if postPath s = ''param'' then
        (let s' = s\<lparr>limit := 1\<rparr>
         in case param req of
              ParamUndefined \<Rightarrow> (s', GuardThrown ''TypeError'')
            | ParamValue v \<Rightarrow>
                if \<not> truthy v then (s', GuardError ''No filename given in req.params.path'')
                else (s', GuardOk))
      else (s, GuardOk))"

definition multerHandle :: "settings \<Rightarrow> multer_handle" where
  "multerHandle s =
     (if limit s \<noteq> 0 \<and> limit s = 1 \<and> field s \<noteq> [] then Single (field s)
      else if limit s \<noteq> 0 \<and> field s \<noteq> [] then ArrayMax (field s) (limit s)
      else if field s \<noteq> [] then ArrayOf (field s)
      else AnyField)"

definition item_originalname :: "item \<Rightarrow> string option" where
  "item_originalname it = (case it of FileItem u \<Rightarrow> Some (originalname u) | PlainItem \<Rightarrow> None)"

definition item_buffer :: "item \<Rightarrow> string option" where
  "item_buffer it = (case it of FileItem u \<Rightarrow> Some (buffer u) | PlainItem \<Rightarrow> None)"

text \<open>The storage path of one file: the \<open>switch\<close> on \<open>settings.postPath\<close>, then
  \<open>fspath.normalize\<close>. \<open>None\<close> is a TypeError (an \<open>undefined\<close> handed to the path
  functions). There is no test of the result against the storage root.\<close>

definition filePath :: "string \<Rightarrow> settings \<Rightarrow> request \<Rightarrow> item \<Rightarrow> string option" where
  "filePath root s req it =
     map_option normalize
       (if postPath s = ''upload'' then join_args [Some root, item_originalname it]
        else if postPath s = ''param'' then join_args [Some root, params_path req]
        else if postPath s = ''dir'' then join_args [Some root, params_path req, item_originalname it]
        else None)"

datatype file_end = Written | Failed string | Threw

definition store_file :: "env \<Rightarrow> string \<Rightarrow> settings \<Rightarrow> request \<Rightarrow> item \<Rightarrow> event list \<times> file_end" where
  "store_file e root s req it =
     (case filePath root s req it of
        None \<Rightarrow> ([Thrown ''TypeError''], Threw)
      | Some fp \<Rightarrow>
          (let w = (case writeFile e fp (item_buffer it) of
                      Some err \<Rightarrow> ([FsWriteFile fp (item_buffer it)], Failed err)
                    | None \<Rightarrow> ([FsWriteFile fp (item_buffer it)], Written))
           in if postPath s \<noteq> ''dir'' then w
              else (case mkdirp e (dirname fp) of
                      Some err \<Rightarrow> ([FsMkdirp (dirname fp)], Failed err)
                    | None \<Rightarrow> (FsMkdirp (dirname fp) # fst w, snd w))))"

text \<open>The files of a request, one after the other; the first failure ends the loop,
  and an exception thrown inside a step ends the request's events.\<close>

fun store_files :: "env \<Rightarrow> string \<Rightarrow> settings \<Rightarrow> request \<Rightarrow> item list \<Rightarrow> event list \<times> file_end" where
  "store_files e root s req [] = ([], Written)"
| "store_files e root s req (it # its) =
     (case store_file e root s req it of
        (es, Written) \<Rightarrow> (case store_files e root s req its of (fs, r) \<Rightarrow> (es @ fs, r))
      | (es, r) \<Rightarrow> (es, r))"

text \<open>What the loop over \<open>req.files\<close> visits: the array's files, or, after
  \<open>req.files = req.file\<close>, the values of that one object.\<close>

definition visited :: "env \<Rightarrow> multer_outcome \<Rightarrow> item list" where
  "visited e out =
     (case out of
        MulterFiles us \<Rightarrow> map FileItem us
      | MulterFile u \<Rightarrow> object_values e u
      | _ \<Rightarrow> [])"

definition skip_postProcessing :: "middleware \<Rightarrow> bool" where
  "skip_postProcessing m =
     (case m of
        MUndefined \<Rightarrow> True
      | MNull \<Rightarrow> True
      | MBool b \<Rightarrow> \<not> b
      | MString str \<Rightarrow> str = []
      | MArray fs \<Rightarrow> fs = []
      | _ \<Rightarrow> False)"

definition post_processing :: "env \<Rightarrow> settings \<Rightarrow> request \<Rightarrow> event list option" where
  "post_processing e s req =
     (if skip_postProcessing (postProcessing s) then Some [ResSendEmptyObject]
      else (case runMiddleware (forEach_undefined e) req (postProcessing s) None of
              None \<Rightarrow> None
            | Some (Proceeds es) \<Rightarrow> Some (es @ [ResSendEmptyObject])
            | Some (Stopped es) \<Rightarrow> Some es))"

text \<open>\<open>emu.post\<close> returns the settings object as it leaves it (the first step may have
  assigned \<open>limit\<close>) and the events.\<close>

definition emu_post :: "env \<Rightarrow> settings \<Rightarrow> request \<Rightarrow> (settings \<times> event list) option" where
  "emu_post e s req =
     (case root_of s of
        None \<Rightarrow> Some (s, [PathNotString])
      | Some root \<Rightarrow>
          (case sanity_checks s req of
             (s1, GuardThrown msg) \<Rightarrow> Some (s1, [Thrown msg])
           | (s1, GuardError msg) \<Rightarrow> Some (s1, [ErrorHandler (errorHandler s1) 400 msg])
           | (s1, GuardOk) \<Rightarrow>
               (case multer e (multerHandle s1) of
                  MulterError err \<Rightarrow>
                    Some (s1, [MulterRun (multerHandle s1), ErrorHandler (errorHandler s1) 400 err])
                | MulterNone \<Rightarrow>
                    Some (s1, [MulterRun (multerHandle s1),
                               ErrorHandler (errorHandler s1) 400 ''No files uploaded''])
                | out \<Rightarrow>
                    (case mkdirp e root of
                       Some err \<Rightarrow>
                         Some (s1, [MulterRun (multerHandle s1), FsMkdirp root,
                                    ErrorHandler (errorHandler s1) 400 err])
                     | None \<Rightarrow>
                         (case store_files e root s1 req (visited e out) of
                            (es, Failed err) \<Rightarrow>
                              Some (s1, MulterRun (multerHandle s1) # FsMkdirp root # es
                                        @ [ErrorHandler (errorHandler s1) 400 err])
                          | (es, Threw) \<Rightarrow>
                              Some (s1, MulterRun (multerHandle s1) # FsMkdirp root # es)
                          | (es, Written) \<Rightarrow>
                              map_option
                                (\<lambda>ps. (s1, MulterRun (multerHandle s1) # FsMkdirp root # es @ ps))
                                (post_processing e s1 req))))))"


section \<open>The dispatcher\<close>

text \<open>\<open>runMiddleware(req, res, gate, () => handler)\<close> as the dispatcher calls it: with
  four arguments, so \<open>obj\<close> is \<open>undefined\<close>. The handler runs when the chain proceeds.\<close>

definition gated ::
  "env \<Rightarrow> request \<Rightarrow> middleware \<Rightarrow> settings \<Rightarrow> (settings \<times> event list) option
     \<Rightarrow> (settings \<times> event list) option" where
  "gated e req mw s handler =
     (case runMiddleware (forEach_undefined e) req mw None of
        None \<Rightarrow> None
      | Some (Stopped es) \<Rightarrow> Some (s, es)
      | Some (Proceeds es) \<Rightarrow> map_option (\<lambda>(s', fs). (s', es @ fs)) handler)"

text \<open>The second step of the dispatcher: the handler is chosen by the request verb and path
  parameter, each behind the option the source names there.\<close>

definition route :: "env \<Rightarrow> settings \<Rightarrow> request \<Rightarrow> (settings \<times> event list) option" where
  "route e s req =
     (if req_method req = ''GET'' \<and> truthy (params_path req) then
        gated e req (get_mw s) s (Some (s, emu_get e s req))
      else if req_method req = ''GET'' then
        gated e req (list_mw s) s (Some (s, emu_list e s req))
      else if req_method req = ''POST'' then
        gated e req (post_mw s) s (emu_post e s req)
      else if req_method req = ''MOVE'' then
        gated e req (post_mw s) s (Some (s, emu_move e s req))
      else if req_method req = ''DELETE'' then
        map_option
          (\<lambda>(s', es).
             (s', (if \<not> truthy (params_path req)
                   then [ErrorHandler (errorHandler s) 400 ''No file path specified'']
                   else []) @ es))
          (gated e req (delete_mw s) s (Some (s, emu_delete e s req)))
      else Some (s, []))"

text \<open>
  The function \<open>emu(options)\<close> returns. Its first step yields the settings the
  handlers get: for a string path the configuration object itself, for a function a
  shallow clone with the computed path. The result is the configuration object as the
  request leaves it, and the events.
\<close>

definition dispatch :: "env \<Rightarrow> settings \<Rightarrow> request \<Rightarrow> (settings \<times> event list) option" where
  "dispatch e cfg req =
     (case path cfg of
        PathStr r \<Rightarrow> route e cfg req
      | PathFun f \<Rightarrow>
          map_option (\<lambda>(s', es). (cfg, es)) (route e (cfg\<lparr>path := PathStr (f req)\<rparr>) req)
      | PathOther \<Rightarrow>
          Some (cfg, [Thrown ''express-middleware-upload setting path must be a string or a function'']))"


section \<open>Mounting: emu(options) and emu.defaults\<close>

record options =
  o_path :: "path_setting option"
  o_basePath :: "string option"
  o_limit :: "int option"
  o_expect :: "int option"
  o_field :: "string option"
  o_postPath :: "string option"
  o_list :: middleware
  o_get :: middleware
  o_post :: middleware
  o_move :: middleware
  o_delete :: middleware
  o_postProcessing :: middleware
  o_errorHandler :: "handler option"

text \<open>\<open>_.defaults(options, emu.defaults)\<close>: the five keys of \<open>emu.defaults\<close> fill what
  the options leave undefined. No operation option is among them. A string path is
  joined to \<open>emu.defaults.basePath\<close> (the empty string of the source, not the
  option of that name) and normalized.\<close>

definition defaults :: "options \<Rightarrow> path_setting \<Rightarrow> settings" where
  "defaults opts p =
     \<lparr>path = p,
      basePath = (case o_basePath opts of None \<Rightarrow> [] | Some b \<Rightarrow> b),
      limit = (case o_limit opts of None \<Rightarrow> 0 | Some n \<Rightarrow> n),
      expect = o_expect opts,
      field = (case o_field opts of None \<Rightarrow> ''file'' | Some f \<Rightarrow> f),
      postPath = (case o_postPath opts of None \<Rightarrow> ''upload'' | Some pp \<Rightarrow> pp),
      list_mw = o_list opts,
      get_mw = o_get opts,
      post_mw = o_post opts,
      move_mw = o_move opts,
      delete_mw = o_delete opts,
      postProcessing = o_postProcessing opts,
      errorHandler = (case o_errorHandler opts of None \<Rightarrow> DefaultHandler | Some h \<Rightarrow> h)\<rparr>"

definition emu :: "options \<Rightarrow> string + settings" where
  "emu opts =
     (case o_path opts of
        None \<Rightarrow> Inl ''Cannot use emu without specifying a storage path''
      | Some (PathStr p) \<Rightarrow>
          if p = [] then Inl ''Cannot use emu without specifying a storage path''
          else Inr (defaults opts (PathStr (normalize (path_join [[], p]))))
      | Some p \<Rightarrow> Inr (defaults opts p))"


section \<open>Sample configurations and requests\<close>

text \<open>The settings of \<open>emu({path: '/data'})\<close>.\<close>

definition data_options :: options where
  "data_options =
     \<lparr>o_path = Some (PathStr ''/data''), o_basePath = None, o_limit = None, o_expect = None,
      o_field = None, o_postPath = None, o_list = MUndefined, o_get = MUndefined,
      o_post = MUndefined, o_move = MUndefined, o_delete = MUndefined,
      o_postProcessing = MUndefined, o_errorHandler = None\<rparr>"

definition data_settings :: settings where
  "data_settings =
     \<lparr>path = PathStr ''/data'', basePath = [], limit = 0, expect = None, field = ''file'',
      postPath = ''upload'', list_mw = MUndefined, get_mw = MUndefined, post_mw = MUndefined,
      move_mw = MUndefined, delete_mw = MUndefined, postProcessing = MUndefined,
      errorHandler = DefaultHandler\<rparr>"

text \<open>A filesystem on which every call succeeds and the storage root does not exist
  yet; the body parser finds no file.\<close>

definition quiet_env :: env where
  "quiet_env =
     \<lparr>stat = (\<lambda>p. StatENOENT), readdir = (\<lambda>p. Inr []), access = (\<lambda>p. AccessOk),
      unlink = (\<lambda>p. None), rename = (\<lambda>p q. None), mkdirp = (\<lambda>p. None),
      writeFile = (\<lambda>p b. None), multer = (\<lambda>h. MulterNone), object_values = (\<lambda>u. []),
      forEach_undefined = SkipsToEnd\<rparr>"

text \<open>The same with a chain library that refuses an undefined collection.\<close>

definition strict_env :: env where
  "strict_env = quiet_env\<lparr>forEach_undefined := RefusesCall\<rparr>"

text \<open>A filesystem without the requested file.\<close>

definition missing_env :: env where
  "missing_env = quiet_env\<lparr>access := (\<lambda>p. AccessENOENT)\<rparr>"

text \<open>A filesystem that refuses access for a reason other than absence.\<close>

definition locked_env :: env where
  "locked_env = quiet_env\<lparr>access := (\<lambda>p. AccessError ''EACCES'')\<rparr>"

text \<open>A filesystem where the storage root is a plain file.\<close>

definition file_env :: env where
  "file_env = quiet_env\<lparr>stat := (\<lambda>p. StatOk False 7 0)\<rparr>"

text \<open>A body parser that delivers one file in the array.\<close>

definition jabberwocky :: upload where
  "jabberwocky = \<lparr>originalname = ''jabberwocky.txt'', buffer = ''Twas brillig''\<rparr>"

definition one_file_env :: env where
  "one_file_env = quiet_env\<lparr>multer := (\<lambda>h. MulterFiles [jabberwocky])\<rparr>"

definition request_of :: "string \<Rightarrow> string option \<Rightarrow> request" where
  "request_of m p =
     \<lparr>req_method = m, params_path = p, param = ParamValue None, headers_destination = None\<rparr>"

text \<open>A middleware that answers the request itself and does not call \<open>next\<close>.\<close>

definition auth :: step where
  "auth = Step ''auth'' (\<lambda>r. NoCall)"


section \<open>Evaluating the model\<close>

lemmas fixture_defs = data_options_def data_settings_def quiet_env_def strict_env_def
  missing_env_def locked_env_def file_env_def one_file_env_def request_of_def auth_def
  jabberwocky_def

lemmas path_defs = normalize_def path_join_def dirname_def basename_def within_root_def
  root_dir_def   has_prefix_def truthy_def template_def Let_def

lemmas handler_defs = emu_delete_def emu_get_def emu_list_def emu_move_def root_of_def

lemmas post_defs = emu_post_def sanity_checks_def multerHandle_def visited_def store_file_def
  filePath_def join_args_def item_originalname_def item_buffer_def post_processing_def
  skip_postProcessing_def


section \<open>runMiddleware: what each kind of value does\<close>

text \<open>The branch for \<open>false\<close> answers 403 and then goes on to the chain, whatever
  \<open>obj\<close> is: it has no \<open>return\<close>.\<close>

lemma runMiddleware_false:
  "runMiddleware lib req (MBool False) obj =
     Some (prepend [ResStatusEnd 403] (run_chain lib req None))"
  by (subst runMiddleware.simps) (simp add: isBoolean_def isFalse_def)

text \<open>Without \<open>obj\<close> the function never calls itself, so it returns; a string then
  falls through to the chain with nothing to run.\<close>

lemma runMiddleware_no_obj:
  "runMiddleware lib req mw None =
     Some (if mw = MBool False then prepend [ResStatusEnd 403] (run_chain lib req None)
           else if mw = MUndefined \<or> mw = MNull then Proceeds []
           else case mw of MFunction f \<Rightarrow> run_chain lib req (Some [f])
                | MArray fs \<Rightarrow> run_chain lib req (Some fs)
                | _ \<Rightarrow> run_chain lib req None)"
  by (subst runMiddleware.simps)
     (cases mw; simp add: isBoolean_def isFalse_def isUndefined_def isNull_def has_key_def)

lemma runMiddleware_returns: "\<exists>r. runMiddleware lib req mw None = Some r"
  by (simp add: runMiddleware_no_obj)

text \<open>With \<open>obj\<close> passed, a string is looked up and the option it names is run.\<close>

lemma runMiddleware_string_with_obj:
  "runMiddleware lib req (MString ''post'') (Some [''post'' \<mapsto> MFunction auth]) =
     Some (Stopped [RunStep ''auth''])"
  by (subst runMiddleware.simps, subst runMiddleware.simps)
     (simp add: isBoolean_def isFalse_def isUndefined_def isNull_def has_key_def get_key_def
        run_chain_def auth_def)

lemmas dispatch_defs = dispatch_def route_def gated_def runMiddleware_no_obj run_chain_def

lemma emu_data_options: "emu data_options = Inr data_settings"
  by (simp add: emu_def data_options_def data_settings_def defaults_def path_join_def
      normalize_def)


section \<open>Path containment\<close>

lemma within_root_has_prefix: "within_root root p \<Longrightarrow> has_prefix root p"
proof -
  assume w: "within_root root p"
  show ?thesis
  proof (cases "p = root")
    case True
    then show ?thesis by (simp add: has_prefix_def)
  next
    case False
    with w have t: "take (length (root_dir root)) p = root_dir root"
      by (simp add: within_root_def)
    show ?thesis
    proof (cases "root \<noteq> [] \<and> last root = CHR ''/''")
      case True
      then show ?thesis using t by (simp add: root_dir_def has_prefix_def)
    next
      case False
      then have rd: "root_dir root = root @ ''/''" by (auto simp add: root_dir_def)
      have t': "take (length root + 1) p = root @ ''/''"
        using t by (simp add: rd)
      have "take (length root) p = take (length root) (take (length root + 1) p)" by simp
      also have "\<dots> = root" by (simp only: t') simp
      finally show ?thesis by (simp add: has_prefix_def)
    qed
  qed
qed

text \<open>
  C1. The claim: for get, post, move and delete, the path handed to the filesystem
  stays lexically within the storage root. The code: \<open>emu.delete\<close> (like \<open>emu.move\<close>
  and \<open>emu.post\<close>) normalizes the path and uses it with no test at all, and the test of
  \<open>emu.get\<close> compares leading characters only, after \<open>fs.access\<close> has already been called.
  With root \<open>/data\<close>, a DELETE for the parameter \<open>../etc/passwd\<close> unlinks
  \<open>/etc/passwd\<close>, and a GET for \<open>../data2/secret\<close> is served from \<open>/data2/secret\<close>.
\<close>

theorem delete_leaves_storage_root:
  "dispatch quiet_env data_settings (request_of ''DELETE'' (Some ''../etc/passwd'')) =
     Some (data_settings, [FsUnlink ''/etc/passwd'', ResSendStatus 200])
   \<and> \<not> within_root ''/data'' ''/etc/passwd''
   \<and> dispatch quiet_env data_settings (request_of ''GET'' (Some ''../data2/secret'')) =
     Some (data_settings, [FsAccess ''/data2/secret'', ResSendFile ''/data2/secret''])
   \<and> \<not> within_root ''/data'' ''/data2/secret''"
  by (simp add: dispatch_defs handler_defs fixture_defs path_defs)

text \<open>
  C2, as the code has it. For every request, with \<open>p\<close> the normalized join of the root
  and the path parameter: a target that does not exist is answered 404 "File not found"
  wherever it lies, and one that cannot be accessed for another reason 400 "File access
  error - ..."; an accessible target is answered 400 "File outside of storage
  directory!" when \<open>p\<close> does not begin with the root, and is sent when \<open>p\<close> lies
  within the root (is the root, or begins with the root as a directory). The test is
  made on the normalized path. Left open is only an accessible \<open>p\<close> that begins with the
  root's characters and goes on with something other than a slash.
\<close>

theorem get_escape_check:
  assumes "path s = PathStr root"
  shows "(access e (normalize (root @ ''/'' @ template (params_path req))) = AccessENOENT \<longrightarrow>
            emu_get e s req =
              [FsAccess (normalize (root @ ''/'' @ template (params_path req))),
               ErrorHandler (errorHandler s) 404 ''File not found''])
       \<and> (access e (normalize (root @ ''/'' @ template (params_path req))) = AccessError msg \<longrightarrow>
            emu_get e s req =
              [FsAccess (normalize (root @ ''/'' @ template (params_path req))),
               ErrorHandler (errorHandler s) 400 (''File access error - '' @ msg)])
       \<and> (access e (normalize (root @ ''/'' @ template (params_path req))) = AccessOk
            \<and> \<not> has_prefix root (normalize (root @ ''/'' @ template (params_path req))) \<longrightarrow>
            emu_get e s req =
              [FsAccess (normalize (root @ ''/'' @ template (params_path req))),
               ErrorHandler (errorHandler s) 400 ''File outside of storage directory!''])
       \<and> (access e (normalize (root @ ''/'' @ template (params_path req))) = AccessOk
            \<and> within_root root (normalize (root @ ''/'' @ template (params_path req))) \<longrightarrow>
            emu_get e s req =
              [FsAccess (normalize (root @ ''/'' @ template (params_path req))),
               ResSendFile (normalize (root @ ''/'' @ template (params_path req)))])
       \<and> (has_prefix root (normalize (root @ ''/'' @ template (params_path req)))
            \<and> \<not> within_root root (normalize (root @ ''/'' @ template (params_path req))) \<longrightarrow>
            (root = [] \<or> last root \<noteq> CHR ''/'')
            \<and> normalize (root @ ''/'' @ template (params_path req)) \<noteq> root
            \<and> take (length root + 1) (normalize (root @ ''/'' @ template (params_path req)))
                 \<noteq> root @ ''/'')"
  using assms within_root_has_prefix [of root "normalize (root @ ''/'' @ template (params_path req))"]
  by (auto simp add: emu_get_def root_of_def Let_def within_root_def root_dir_def has_prefix_def)

text \<open>C2, witness: an accessible target outside \<open>/data\<close> is refused, one inside is sent
  (also when the root is written \<open>/data/\<close>), a missing one is answered 404, an
  unreadable one 400; \<open>/data2/secret\<close> is the kind of path left open.\<close>

theorem get_escape_check_witness:
  "emu_get quiet_env data_settings (request_of ''GET'' (Some ''../etc/passwd'')) =
     [FsAccess ''/etc/passwd'', ErrorHandler DefaultHandler 400 ''File outside of storage directory!'']
   \<and> emu_get quiet_env data_settings (request_of ''GET'' (Some ''a.txt'')) =
     [FsAccess ''/data/a.txt'', ResSendFile ''/data/a.txt'']
   \<and> emu_get quiet_env (data_settings\<lparr>path := PathStr ''/data/''\<rparr>) (request_of ''GET'' (Some ''a.txt'')) =
     [FsAccess ''/data/a.txt'', ResSendFile ''/data/a.txt'']
   \<and> emu_get missing_env data_settings (request_of ''GET'' (Some ''a.txt'')) =
     [FsAccess ''/data/a.txt'', ErrorHandler DefaultHandler 404 ''File not found'']
   \<and> emu_get locked_env data_settings (request_of ''GET'' (Some ''a.txt'')) =
     [FsAccess ''/data/a.txt'', ErrorHandler DefaultHandler 400 ''File access error - EACCES'']
   \<and> has_prefix ''/data'' ''/data2/secret'' \<and> \<not> within_root ''/data'' ''/data2/secret''
   \<and> take 6 ''/data2/secret'' \<noteq> ''/data/''"
proof -
  have h: "path data_settings = PathStr ''/data''" by (simp add: data_settings_def)
  have k: "path (data_settings\<lparr>path := PathStr ''/data/''\<rparr>) = PathStr ''/data/''" by simp
  show ?thesis
    using get_escape_check [OF h, of quiet_env "request_of ''GET'' (Some ''../etc/passwd'')" "''EACCES''"]
          get_escape_check [OF h, of quiet_env "request_of ''GET'' (Some ''a.txt'')" "''EACCES''"]
          get_escape_check [OF k, of quiet_env "request_of ''GET'' (Some ''a.txt'')" "''EACCES''"]
          get_escape_check [OF h, of missing_env "request_of ''GET'' (Some ''a.txt'')" "''EACCES''"]
          get_escape_check [OF h, of locked_env "request_of ''GET'' (Some ''a.txt'')" "''EACCES''"]
          get_escape_check [OF h, of quiet_env "request_of ''GET'' (Some ''../data2/secret'')" "''EACCES''"]
    by (simp add: fixture_defs path_defs)
qed

text \<open>C2, counterexample to the claim as stated: the normalized join \<open>/etc/passwd\<close> lies
  outside \<open>/data\<close>, the file does not exist, and the answer is 404 "File not found", not
  the escape error.\<close>

theorem get_escape_counterexample:
  "\<not> within_root ''/data'' (normalize (''/data'' @ ''/'' @ ''../etc/passwd''))
   \<and> emu_get missing_env data_settings (request_of ''GET'' (Some ''../etc/passwd'')) =
       [FsAccess ''/etc/passwd'', ErrorHandler DefaultHandler 404 ''File not found'']"
  by (simp add: handler_defs fixture_defs path_defs)


section \<open>Uploads\<close>

lemma post_processing_returns: "\<exists>es. post_processing e s req = Some es"
proof -
  obtain r where r: "runMiddleware (forEach_undefined e) req (postProcessing s) None = Some r"
    using runMiddleware_returns by blast
  show ?thesis by (cases r) (simp_all add: post_processing_def r)
qed

lemma sanity_checks_settings:
  "fst (sanity_checks s req) = (if postPath s = ''param'' then s\<lparr>limit := 1\<rparr> else s)"
  by (simp add: sanity_checks_def Let_def split: param_field.splits)

text \<open>\<open>emu.post\<close> returns, and leaves the settings object as it was or with
  \<open>limit\<close> set to 1.\<close>

lemma emu_post_settings:
  "\<exists>es. emu_post e s req =
     Some (if postPath s = ''param'' \<and> root_of s \<noteq> None then s\<lparr>limit := 1\<rparr> else s, es)"
proof (cases "root_of s")
  case None
  then show ?thesis by (simp add: emu_post_def)
next
  case (Some root)
  obtain s1 g where sg: "sanity_checks s req = (s1, g)" by (cases "sanity_checks s req")
  have s1: "s1 = (if postPath s = ''param'' then s\<lparr>limit := 1\<rparr> else s)"
    using sanity_checks_settings [of s req] sg by simp
  obtain ps where ps: "post_processing e s1 req = Some ps"
    using post_processing_returns by blast
  obtain es r where st: "store_files e root s1 req (visited e (multer e (multerHandle s1))) = (es, r)"
    by (cases "store_files e root s1 req (visited e (multer e (multerHandle s1)))")
  have "\<exists>es. emu_post e s req = Some (s1, es)"
    using Some sg ps st
    by (cases g; cases "multer e (multerHandle s1)"; cases "mkdirp e root"; cases r)
       (simp_all add: emu_post_def)
  then show ?thesis using s1 Some by simp
qed

text \<open>No step of \<open>emu.post\<close> reads \<open>settings.expect\<close>: the events of an upload are
  the same for every value of it.\<close>

lemma store_file_expect: "store_file e root (s\<lparr>expect := x\<rparr>) req it = store_file e root s req it"
  by (simp add: store_file_def filePath_def split: option.splits)

lemma store_files_expect:
  "store_files e root (s\<lparr>expect := x\<rparr>) req its = store_files e root s req its"
  by (induction its) (simp_all add: store_file_expect)

lemma emu_post_ignores_expect:
  "map_option snd (emu_post e (s\<lparr>expect := x\<rparr>) req) = map_option snd (emu_post e s req)"
proof (cases "root_of s")
  case None
  then show ?thesis by (simp add: emu_post_def root_of_def)
next
  case (Some root)
  obtain s1 g where sg: "sanity_checks s req = (s1, g)" by (cases "sanity_checks s req")
  then have sg': "sanity_checks (s\<lparr>expect := x\<rparr>) req = (s1\<lparr>expect := x\<rparr>, g)"
    by (auto simp add: sanity_checks_def Let_def split: if_splits param_field.splits)
  have mh: "multerHandle (s1\<lparr>expect := x\<rparr>) = multerHandle s1" by (simp add: multerHandle_def)
  have pp: "post_processing e (s1\<lparr>expect := x\<rparr>) req = post_processing e s1 req"
    by (simp add: post_processing_def)
  obtain ps where ps: "post_processing e s1 req = Some ps"
    using post_processing_returns by blast
  obtain es r where st: "store_files e root s1 req (visited e (multer e (multerHandle s1))) = (es, r)"
    by (cases "store_files e root s1 req (visited e (multer e (multerHandle s1)))")
  show ?thesis
    using Some sg sg' mh pp ps st
    by (cases g; cases "multer e (multerHandle s1)"; cases "mkdirp e root"; cases r)
       (simp_all add: emu_post_def root_of_def store_files_expect)
qed

text \<open>
  C3. The claim: with \<open>expect\<close> above the number of files the upload fails with "Less
  than expected files uploaded" before anything is written. The code: with
  \<open>expect: 2, limit: 3\<close> (the configuration of test/constraints.js) and one file in the
  request, the file is written and the answer is the empty object.
\<close>

theorem upload_below_expect_is_stored:
  "emu_post one_file_env (data_settings\<lparr>expect := Some 2, limit := 3\<rparr>) (request_of ''POST'' None) =
     Some (data_settings\<lparr>expect := Some 2, limit := 3\<rparr>,
           [MulterRun (ArrayMax ''file'' 3), FsMkdirp ''/data'',
            FsWriteFile ''/data/jabberwocky.txt'' (Some ''Twas brillig''), ResSendEmptyObject])"
  by (simp add: post_defs handler_defs fixture_defs path_defs runMiddleware_no_obj)

text \<open>
  C10. Under the \<open>'param'\<close> naming policy, \<open>emu.post\<close> fails with "No filename given in
  req.params.path" exactly when \<open>req.param.path\<close> is missing or empty; the path
  parameter \<open>req.params.path\<close> has no part in it.
\<close>

theorem param_guard_reads_param:
  assumes "path s = PathStr root" and "postPath s = ''param''"
  shows "(emu_post e s req =
            Some (s\<lparr>limit := 1\<rparr>,
                  [ErrorHandler (errorHandler s) 400 ''No filename given in req.params.path''])
          \<longleftrightarrow> (\<exists>v. param req = ParamValue v \<and> \<not> truthy v))
       \<and> sanity_checks s (req\<lparr>params_path := p\<rparr>) = sanity_checks s req"
proof -
  have ind: "sanity_checks s (req\<lparr>params_path := p\<rparr>) = sanity_checks s req"
    by (simp add: sanity_checks_def)
  have iff: "emu_post e s req =
            Some (s\<lparr>limit := 1\<rparr>,
                  [ErrorHandler (errorHandler s) 400 ''No filename given in req.params.path''])
          \<longleftrightarrow> (\<exists>v. param req = ParamValue v \<and> \<not> truthy v)"
  proof (cases "param req")
    case ParamUndefined
    then show ?thesis using assms by (simp add: emu_post_def root_of_def sanity_checks_def)
  next
    case (ParamValue v)
    show ?thesis
    proof (cases "truthy v")
      case False
      then show ?thesis using assms ParamValue
        by (simp add: emu_post_def root_of_def sanity_checks_def)
    next
      case True
      obtain ps where ps: "post_processing e (s\<lparr>limit := 1\<rparr>) req = Some ps"
        using post_processing_returns by blast
      obtain es r where st: "store_files e root (s\<lparr>limit := 1\<rparr>) req
          (visited e (multer e (multerHandle (s\<lparr>limit := 1\<rparr>)))) = (es, r)"
        by (cases "store_files e root (s\<lparr>limit := 1\<rparr>) req
          (visited e (multer e (multerHandle (s\<lparr>limit := 1\<rparr>))))")
      have "emu_post e s req \<noteq>
            Some (s\<lparr>limit := 1\<rparr>,
                  [ErrorHandler (errorHandler s) 400 ''No filename given in req.params.path''])"
        using assms ParamValue True ps st
        by (cases "multer e (multerHandle (s\<lparr>limit := 1\<rparr>))"; cases "mkdirp e root"; cases r)
           (simp_all add: emu_post_def root_of_def sanity_checks_def)
      then show ?thesis using ParamValue True by simp
    qed
  qed
  show ?thesis using ind iff by simp
qed

text \<open>C10, witness: a request with a path parameter and no \<open>req.param.path\<close> is
  refused, and dropping the path parameter leaves the guard as it was.\<close>

theorem param_guard_reads_param_witness:
  "emu_post quiet_env (data_settings\<lparr>postPath := ''param''\<rparr>) (request_of ''POST'' (Some ''a.txt'')) =
     Some (data_settings\<lparr>postPath := ''param'', limit := 1\<rparr>,
           [ErrorHandler DefaultHandler 400 ''No filename given in req.params.path''])
   \<and> sanity_checks (data_settings\<lparr>postPath := ''param''\<rparr>)
        ((request_of ''POST'' (Some ''a.txt''))\<lparr>params_path := None\<rparr>)
     = sanity_checks (data_settings\<lparr>postPath := ''param''\<rparr>) (request_of ''POST'' (Some ''a.txt''))"
proof -
  have h: "path (data_settings\<lparr>postPath := ''param''\<rparr>) = PathStr ''/data''"
    by (simp add: data_settings_def)
  have g: "postPath (data_settings\<lparr>postPath := ''param''\<rparr>) = ''param''" by simp
  show ?thesis
    using param_guard_reads_param [OF h g, of quiet_env "request_of ''POST'' (Some ''a.txt'')" None]
    by (simp add: fixture_defs truthy_def)
qed


section \<open>Listing\<close>

text \<open>
  C9. A list request whose storage root does not exist is answered with the empty
  array; a root that exists and is not a directory makes the operation fail through
  the error handler (400, "Not a directory").
\<close>

theorem list_missing_root:
  assumes "path s = PathStr root"
  shows "(stat e root = StatENOENT \<longrightarrow> emu_list e s req = [FsStat root, ResSendList []])
       \<and> (stat e root = StatOk False sz ct \<longrightarrow>
            emu_list e s req = [FsStat root, ErrorHandler (errorHandler s) 400 ''Not a directory''])"
  using assms by (simp add: emu_list_def root_of_def)

text \<open>C9, witness: \<open>/data\<close> missing, and \<open>/data\<close> being a plain file.\<close>

theorem list_missing_root_witness:
  "emu_list quiet_env data_settings (request_of ''GET'' None) = [FsStat ''/data'', ResSendList []]
   \<and> emu_list file_env data_settings (request_of ''GET'' None) =
       [FsStat ''/data'', ErrorHandler DefaultHandler 400 ''Not a directory'']"
proof -
  have h: "path data_settings = PathStr ''/data''" by (simp add: data_settings_def)
  show ?thesis
    using list_missing_root [OF h, where e = quiet_env and req = "request_of ''GET'' None"]
          list_missing_root [OF h, where e = file_env and sz = 7 and ct = 0
                                     and req = "request_of ''GET'' None"]
    by (simp add: fixture_defs)
qed


section \<open>The dispatcher and its gates\<close>

text \<open>
  C4. The claim: an operation whose option is \<open>false\<close> is answered 403 and nothing
  else happens. The code: after \<open>res.status(403).end()\<close> the branch does not return
  (\<open>runMiddleware_false\<close>), so the chain is started with no collection. With
  \<open>delete: false\<close> and a DELETE for \<open>a.txt\<close>: where the chain library has nothing to
  run and goes on to \<open>end\<close>, the callback is invoked and the file is unlinked after the
  403; where it refuses the call, an exception leaves \<open>runMiddleware\<close> after the 403.
\<close>

theorem deny_is_not_a_stop:
  "dispatch quiet_env (data_settings\<lparr>delete_mw := MBool False\<rparr>) (request_of ''DELETE'' (Some ''a.txt'')) =
     Some (data_settings\<lparr>delete_mw := MBool False\<rparr>,
           [ResStatusEnd 403, FsUnlink ''/data/a.txt'', ResSendStatus 200])
   \<and> dispatch strict_env (data_settings\<lparr>delete_mw := MBool False\<rparr>) (request_of ''DELETE'' (Some ''a.txt'')) =
     Some (data_settings\<lparr>delete_mw := MBool False\<rparr>,
           [ResStatusEnd 403, Thrown ''Error''])"
  by (simp add: dispatch_defs handler_defs fixture_defs path_defs)

text \<open>
  C5. The claim: an option set to the name of another option runs that option's
  steps. The code: the dispatcher calls \<open>runMiddleware\<close> without \<open>obj\<close>, so the name
  is never looked up. With \<open>post: auth\<close> and \<open>list: 'post'\<close>, an upload runs \<open>auth\<close>;
  a listing does not: it is served without it, or ends in the chain library's exception.
\<close>

theorem alias_is_not_resolved:
  "dispatch quiet_env (data_settings\<lparr>list_mw := MString ''post'', post_mw := MFunction auth\<rparr>)
       (request_of ''GET'' None)
     = Some (data_settings\<lparr>list_mw := MString ''post'', post_mw := MFunction auth\<rparr>,
             [FsStat ''/data'', ResSendList []])
   \<and> dispatch strict_env (data_settings\<lparr>list_mw := MString ''post'', post_mw := MFunction auth\<rparr>)
       (request_of ''GET'' None)
     = Some (data_settings\<lparr>list_mw := MString ''post'', post_mw := MFunction auth\<rparr>,
             [Thrown ''Error''])
   \<and> dispatch quiet_env (data_settings\<lparr>list_mw := MString ''post'', post_mw := MFunction auth\<rparr>)
       (request_of ''POST'' None)
     = Some (data_settings\<lparr>list_mw := MString ''post'', post_mw := MFunction auth\<rparr>,
             [RunStep ''auth''])"
  by (simp add: dispatch_defs handler_defs post_defs fixture_defs path_defs)

text \<open>The dispatcher never reads the \<open>move\<close> option: the events of a MOVE request are
  the same for every value of it.\<close>

lemma move_ignores_move_option:
  assumes "req_method req = ''MOVE''"
  shows "map_option snd (route e (s\<lparr>move_mw := m\<rparr>) req) = map_option snd (route e s req)"
proof -
  obtain r where r: "runMiddleware (forEach_undefined e) req (post_mw s) None = Some r"
    using runMiddleware_returns by blast
  have mv: "emu_move e (s\<lparr>move_mw := m\<rparr>) req = emu_move e s req"
    by (simp add: emu_move_def root_of_def Let_def split: option.splits path_setting.splits)
  show ?thesis using assms by (cases r) (simp_all add: route_def gated_def r mv)
qed

text \<open>
  C6. The claim: a MOVE request is gated by the \<open>move\<close> option, and is denied when
  none is configured. The code: the MOVE branch passes \<open>settings.post\<close>, and
  \<open>emu.defaults\<close> holds no \<open>move\<close>. With \<open>move: false\<close> the file is renamed; with the
  settings of \<open>emu({path: '/data'})\<close> it is renamed as well.
\<close>

theorem move_is_gated_by_post:
  "dispatch quiet_env (data_settings\<lparr>move_mw := MBool False\<rparr>)
       ((request_of ''MOVE'' (Some ''a.txt''))\<lparr>headers_destination := Some ''b.txt''\<rparr>)
     = Some (data_settings\<lparr>move_mw := MBool False\<rparr>,
             [FsRename ''/data/a.txt'' ''/data/b.txt'', ResSendStatus 200])
   \<and> emu data_options = Inr data_settings
   \<and> move_mw data_settings = MUndefined
   \<and> dispatch quiet_env data_settings
       ((request_of ''MOVE'' (Some ''a.txt''))\<lparr>headers_destination := Some ''b.txt''\<rparr>)
     = Some (data_settings, [FsRename ''/data/a.txt'' ''/data/b.txt'', ResSendStatus 200])"
  by (simp add: emu_data_options)
     (simp add: dispatch_defs handler_defs fixture_defs path_defs)

text \<open>
  C7. The claim: a DELETE without a path parameter is answered 400 "No file path
  specified" and nothing is unlinked. The code: the error handler is called and the
  branch goes on (there is no \<open>return\<close>): the delete runs on the path made from the
  text "undefined".
\<close>

theorem delete_without_path_unlinks:
  "dispatch quiet_env data_settings (request_of ''DELETE'' None) =
     Some (data_settings,
           [ErrorHandler DefaultHandler 400 ''No file path specified'',
            FsUnlink ''/data/undefined'', ResSendStatus 200])"
  by (simp add: dispatch_defs handler_defs fixture_defs path_defs)


section \<open>What a request does to the configuration\<close>

lemma gated_settings:
  assumes "h = Some (s', fs)"
  shows "\<exists>es. gated e req mw s h = Some (s, es) \<or> gated e req mw s h = Some (s', es)"
proof -
  obtain r where r: "runMiddleware (forEach_undefined e) req mw None = Some r"
    using runMiddleware_returns by blast
  show ?thesis using assms by (cases r) (auto simp add: gated_def r)
qed

lemma route_settings:
  "\<exists>es. route e s req = Some (s, es)
     \<or> (route e s req = Some (s\<lparr>limit := 1\<rparr>, es) \<and> postPath s = ''param''
          \<and> req_method req = ''POST'' \<and> root_of s \<noteq> None)"
proof -
  obtain ps where ps: "emu_post e s req =
      Some (if postPath s = ''param'' \<and> root_of s \<noteq> None then s\<lparr>limit := 1\<rparr> else s, ps)"
    using emu_post_settings by blast
  consider (get) "req_method req = ''GET'' \<and> truthy (params_path req)"
    | (list) "req_method req = ''GET'' \<and> \<not> truthy (params_path req)"
    | (post) "req_method req = ''POST''"
    | (move) "req_method req = ''MOVE''"
    | (delete) "req_method req = ''DELETE''"
    | (other) "req_method req \<noteq> ''GET'' \<and> req_method req \<noteq> ''POST''
               \<and> req_method req \<noteq> ''MOVE'' \<and> req_method req \<noteq> ''DELETE''"
    by blast
  then show ?thesis
  proof cases
    case get
    then show ?thesis
      using gated_settings [of "Some (s, emu_get e s req)" s "emu_get e s req" e req "get_mw s" s]
      by (auto simp add: route_def)
  next
    case list
    then show ?thesis
      using gated_settings [of "Some (s, emu_list e s req)" s "emu_list e s req" e req "list_mw s" s]
      by (auto simp add: route_def)
  next
    case post
    then show ?thesis
      using gated_settings [OF ps, of e req "post_mw s" s]
      by (auto simp add: route_def split: if_splits)
  next
    case move
    then show ?thesis
      using gated_settings [of "Some (s, emu_move e s req)" s "emu_move e s req" e req "post_mw s" s]
      by (auto simp add: route_def)
  next
    case delete
    then show ?thesis
      using gated_settings [of "Some (s, emu_delete e s req)" s "emu_delete e s req" e req "delete_mw s" s]
      by (auto simp add: route_def)
  next
    case other
    then show ?thesis by (simp add: route_def)
  qed
qed

text \<open>
  C8, as the code has it. Every request returns and leaves the configuration's
  \<open>path\<close> and every other field but \<open>limit\<close> as they were. \<open>limit\<close> changes only in
  an upload under the \<open>'param'\<close> naming policy on a configuration whose path is a
  string (the handlers then work on the configuration object itself), and it becomes 1.
  With a path function the handlers work on a clone and nothing changes.
\<close>

theorem request_leaves_configuration:
  "\<exists>cfg' es. dispatch e cfg req = Some (cfg', es)
      \<and> path cfg' = path cfg
      \<and> cfg'\<lparr>limit := limit cfg\<rparr> = cfg
      \<and> (limit cfg' \<noteq> limit cfg \<longrightarrow>
           limit cfg' = 1 \<and> postPath cfg = ''param'' \<and> req_method req = ''POST''
           \<and> (\<exists>r. path cfg = PathStr r))"
proof (cases "path cfg")
  case (PathStr r)
  then show ?thesis
    using route_settings [of e cfg req] by (auto simp add: dispatch_def)
next
  case (PathFun f)
  then show ?thesis
    using route_settings [of e "cfg\<lparr>path := PathStr (f req)\<rparr>" req] by (auto simp add: dispatch_def)
next
  case PathOther
  then show ?thesis by (simp add: dispatch_def)
qed

text \<open>C8, witness: an upload under \<open>'param'\<close> on \<open>/data\<close> changes \<open>limit\<close> from 0 to 1
  and leaves the path.\<close>

theorem request_leaves_configuration_witness:
  "\<exists>cfg' es. dispatch quiet_env (data_settings\<lparr>postPath := ''param''\<rparr>)
                 (request_of ''POST'' (Some ''a.txt'')) = Some (cfg', es)
       \<and> limit cfg' = 1 \<and> limit (data_settings\<lparr>postPath := ''param''\<rparr>) = 0
       \<and> path cfg' = PathStr ''/data''"
  using request_leaves_configuration [of quiet_env "data_settings\<lparr>postPath := ''param''\<rparr>"
          "request_of ''POST'' (Some ''a.txt'')"]
  by (simp add: dispatch_defs handler_defs post_defs fixture_defs path_defs)

text \<open>C8, counterexample to the claim as stated: after this upload request the
  configuration's \<open>limit\<close> is 1; it was 0.\<close>

theorem configuration_limit_counterexample:
  "dispatch quiet_env (data_settings\<lparr>postPath := ''param''\<rparr>) (request_of ''POST'' (Some ''a.txt''))
     = Some (data_settings\<lparr>postPath := ''param'', limit := 1\<rparr>,
             [ErrorHandler DefaultHandler 400 ''No filename given in req.params.path''])
   \<and> limit (data_settings\<lparr>postPath := ''param''\<rparr>) = 0"
  by (simp add: dispatch_defs handler_defs post_defs fixture_defs path_defs)

end
